theory Spec2Isabelle
  imports Main "HOL-Library.Multiset"
begin

section \<open>Thrown values, rows and the world the server actions act on\<close>

text \<open>
  JavaScript can throw any value. The actions only ever ask whether the value is an
  \<^verbatim>\<open>Error\<close> (\<^verbatim>\<open>err instanceof Error\<close>) and, if so, read its message.
\<close>

datatype exn = Error string | NonError

text \<open>
  The calls that leave \<^verbatim>\<open>actions.ts\<close>: queries on the store, the framework's cache
  revalidation, the uploaded file's readers, the file system, the two parsers and the
  three text-processing helpers. Each of them is awaited and may throw.
\<close>

datatype call =
    DbSelectPrompts | DbInsertPrompts | DbDeletePrompts
  | DbSelectSettings | DbDeleteSettings | DbInsertSettings
  | DbSelectDocuments | DbInsertDocuments | DbSelectDocumentsOrdered
  | RevalidatePath string
  | FileArrayBuffer | FileText
  | FsMkdir | FsWriteFile
  | PdfParse | MammothExtractRawText
  | ChunkUpText | GenerateEmbedding | BulkInsertEmbeddings

record prompt_row =
  prompt_id :: nat
  title :: string
  content :: string

record settings_row =
  username :: "string option"
  system :: "string option"

record document_row =
  doc_id :: nat
  doc_name :: string
  doc_size :: nat
  doc_extension :: string
  createdAt :: nat

record embedding_row =
  chunk :: string
  embedding :: "int list"
  documentId :: nat

text \<open>The uploaded \<^verbatim>\<open>File\<close>: its name, its size and its bytes.\<close>

record File =
  file_name :: string
  file_size :: nat
  file_bytes :: string

text \<open>
  The world: the four tables, the raw files written below \<^verbatim>\<open>DOCUMENT_FOLDER\<close>
  (file name and bytes), what \<^verbatim>\<open>console.error\<close> printed, and the outgoing calls
  in the order they were made.
\<close>

record world =
  Prompts :: "prompt_row list"
  Settings :: "settings_row list"
  Documents :: "document_row list"
  Embeddings :: "embedding_row list"
  disk :: "(string \<times> string) list"
  console :: "exn list"
  trace :: "call list"

text \<open>
  What the surroundings decide during one call of an action: which outgoing call throws
  (and what), the id and the timestamp the store assigns to an inserted row, the
  process-wide flag \<^verbatim>\<open>SAVE_RAW_DOCUMENT_LOCAL\<close>, and the values the parsers and the
  helpers produce when they do not throw.
\<close>

record env =
  fault :: "call \<Rightarrow> exn option"
  new_id :: nat
  now :: nat
  SAVE_RAW_DOCUMENT_LOCAL :: bool
  pdf_text :: "string \<Rightarrow> string"
  docx_text :: "string \<Rightarrow> string"
  chunks_of :: "string \<Rightarrow> string list"
  vectors_of :: "string list \<Rightarrow> int list list"

text \<open>
  \<^verbatim>\<open>FormData\<close>: \<^verbatim>\<open>get\<close> yields the entry under a key, or \<^verbatim>\<open>null\<close>.
\<close>

type_synonym 'v FormData = "string \<Rightarrow> 'v option"

text \<open>
  An entry of a submitted form is a string or a file (\<^verbatim>\<open>FormDataEntryValue\<close>).
  The text forms of the prompt and settings actions hold strings; \<^verbatim>\<open>uploadFile\<close>
  reads an entry of either kind and casts it \<^verbatim>\<open>as File\<close> without a check.
\<close>

datatype entry = StringEntry string | FileEntry File

section \<open>Actions: state passing with exceptions\<close>

type_synonym 'a act = "world \<Rightarrow> (exn + 'a) \<times> world"

definition ret :: "'a \<Rightarrow> 'a act" where
  "ret x w = (Inr x, w)"

definition throw :: "exn \<Rightarrow> 'a act" where
  "throw e w = (Inl e, w)"

definition bnd :: "'a act \<Rightarrow> ('a \<Rightarrow> 'b act) \<Rightarrow> 'b act" where
  "bnd m f w = (case m w of (Inl e, w') \<Rightarrow> (Inl e, w') | (Inr x, w') \<Rightarrow> f x w')"

definition try_catch :: "'a act \<Rightarrow> (exn \<Rightarrow> 'a act) \<Rightarrow> 'a act" where
  "try_catch m h w = (case m w of (Inl e, w') \<Rightarrow> h e w' | (Inr x, w') \<Rightarrow> (Inr x, w'))"

definition modify :: "(world \<Rightarrow> world) \<Rightarrow> unit act" where
  "modify f w = (Inr (), f w)"

text \<open>An outgoing call is recorded, then throws or returns as the surroundings decide.\<close>

definition extern :: "env \<Rightarrow> call \<Rightarrow> unit act" where
  "extern env c w =
     (case fault env c of
        Some e \<Rightarrow> (Inl e, w\<lparr>trace := trace w @ [c]\<rparr>)
      | None \<Rightarrow> (Inr (), w\<lparr>trace := trace w @ [c]\<rparr>))"

definition console_error :: "exn \<Rightarrow> unit act" where
  "console_error err = modify (\<lambda>w. w\<lparr>console := console w @ [err]\<rparr>)"

definition revalidatePath :: "env \<Rightarrow> string \<Rightarrow> unit act" where
  "revalidatePath env p = extern env (RevalidatePath p)"

section \<open>The store\<close>

text \<open>
  The store handle \<^verbatim>\<open>db\<close> (module \<^verbatim>\<open>@/db\<close>) and the tables of
  \<^verbatim>\<open>@/db/schema\<close> are not among the sources; the queries the actions build are
  modelled from the spec's data model. Each query is one outgoing call, and a query
  that throws leaves its table as it was.
\<close>

text \<open>Modelled from the spec: \<^verbatim>\<open>db.select().from(T)\<close>, possibly filtered, limited or
  ordered, returns rows of the missing table \<open>T\<close> and changes nothing.\<close>

definition db_select :: "env \<Rightarrow> call \<Rightarrow> (world \<Rightarrow> 'r list) \<Rightarrow> 'r list act" where
  "db_select env c rows = bnd (extern env c) (\<lambda>_ w. (Inr (rows w), w))"

text \<open>Modelled from the spec: \<^verbatim>\<open>db.insert(Prompts).values(...)\<close> on the missing
  store appends one prompt row, with the id the store assigns.\<close>

definition db_insert_Prompts :: "env \<Rightarrow> string \<Rightarrow> string \<Rightarrow> unit act" where
  "db_insert_Prompts env t c =
     bnd (extern env DbInsertPrompts)
       (\<lambda>_. modify (\<lambda>w. w\<lparr>Prompts := Prompts w @
          [\<lparr>prompt_id = new_id env, title = t, content = c\<rparr>]\<rparr>))"

text \<open>Modelled from the spec: \<^verbatim>\<open>db.delete(Prompts).where(eq(Prompts.id, id))\<close> on the
  missing store removes the prompt rows with that id.\<close>

definition db_delete_Prompts_where_id :: "env \<Rightarrow> nat \<Rightarrow> unit act" where
  "db_delete_Prompts_where_id env i =
     bnd (extern env DbDeletePrompts)
       (\<lambda>_. modify (\<lambda>w. w\<lparr>Prompts := filter (\<lambda>r. prompt_id r \<noteq> i) (Prompts w)\<rparr>))"

text \<open>Modelled from the spec: \<^verbatim>\<open>db.delete(Settings)\<close> on the missing store removes
  every settings row.\<close>

definition db_delete_Settings :: "env \<Rightarrow> unit act" where
  "db_delete_Settings env =
     bnd (extern env DbDeleteSettings) (\<lambda>_. modify (\<lambda>w. w\<lparr>Settings := []\<rparr>))"

text \<open>Modelled from the spec: \<^verbatim>\<open>db.insert(Settings).values({ username, system })\<close>
  on the missing store appends one settings row; a field that is \<^verbatim>\<open>undefined\<close> is
  \<open>None\<close>.\<close>

definition db_insert_Settings :: "env \<Rightarrow> string option \<Rightarrow> string option \<Rightarrow> unit act" where
  "db_insert_Settings env u s =
     bnd (extern env DbInsertSettings)
       (\<lambda>_. modify (\<lambda>w. w\<lparr>Settings := Settings w @ [\<lparr>username = u, system = s\<rparr>]\<rparr>))"

text \<open>Modelled from the spec: the lookup
  \<^verbatim>\<open>db.select().from(Documents).where(eq(Documents.name, name))\<close> on the missing store
  returns the document rows with that name.\<close>

definition db_select_Documents_where_name :: "env \<Rightarrow> string \<Rightarrow> document_row list act" where
  "db_select_Documents_where_name env n =
     db_select env DbSelectDocuments (\<lambda>w. filter (\<lambda>d. doc_name d = n) (Documents w))"

text \<open>Modelled from the spec: \<^verbatim>\<open>db.insert(Documents).values(...).returning()\<close> on the
  missing store appends one document row, with the id and the creation time the store
  assigns, and returns it.\<close>

definition db_insert_Documents_returning ::
    "env \<Rightarrow> string \<Rightarrow> nat \<Rightarrow> string \<Rightarrow> document_row act" where
  "db_insert_Documents_returning env n sz ext =
     (let row = \<lparr>doc_id = new_id env, doc_name = n, doc_size = sz, doc_extension = ext,
                 createdAt = now env\<rparr>
      in bnd (extern env DbInsertDocuments)
           (\<lambda>_. bnd (modify (\<lambda>w. w\<lparr>Documents := Documents w @ [row]\<rparr>)) (\<lambda>_. ret row)))"

text \<open>Modelled from the spec: \<^verbatim>\<open>orderBy(desc(Documents.createdAt))\<close> on the missing
  store returns the rows sorted by creation time, newest first.\<close>

definition orderBy_desc :: "('r \<Rightarrow> nat) \<Rightarrow> 'r list \<Rightarrow> 'r list" where
  "orderBy_desc key rows = rev (sort_key key rows)"

text \<open>Modelled from the spec: the listing query
  \<^verbatim>\<open>db.select().from(Documents).orderBy(desc(Documents.createdAt))\<close> on the missing
  store.\<close>

definition db_select_Documents_orderBy_desc_createdAt :: "env \<Rightarrow> document_row list act" where
  "db_select_Documents_orderBy_desc_createdAt env =
     db_select env DbSelectDocumentsOrdered (\<lambda>w. orderBy_desc createdAt (Documents w))"

section \<open>Prompts\<close>

definition getAllPrompts :: "env \<Rightarrow> prompt_row list act" where
  "getAllPrompts env =
     try_catch
       (bnd (db_select env DbSelectPrompts Prompts) (\<lambda>result. ret result))
       (\<lambda>err. bnd (console_error err) (\<lambda>_. throw (Error ''Error fetching prompts'')))"

text \<open>
  \<^verbatim>\<open>!prompt\<close> holds for \<^verbatim>\<open>null\<close> and for the empty string;
  \<^verbatim>\<open>s.slice(0, n)\<close> is the first \<open>n\<close> characters of \<open>s\<close>.
\<close>

definition slice0 :: "nat \<Rightarrow> string \<Rightarrow> string" where
  "slice0 n s = take n s"

definition addNewPrompt :: "env \<Rightarrow> string FormData \<Rightarrow> unit act" where
  "addNewPrompt env formData =
     (let prompt = formData ''prompt''; title = formData ''title''
      in case (prompt, title) of
           (Some p, Some t) \<Rightarrow>
             if p = [] \<or> t = [] then throw (Error ''Invalid form data'')
             else
               try_catch
                 (bnd (db_insert_Prompts env (slice0 150 t) (slice0 1000 p))
                    (\<lambda>_. revalidatePath env ''/prompts''))
                 (\<lambda>err. bnd (console_error err)
                    (\<lambda>_. throw (Error ''Error adding new prompt'')))
         | _ \<Rightarrow> throw (Error ''Invalid form data''))"

definition deletePrompt :: "env \<Rightarrow> nat \<Rightarrow> unit act" where
  "deletePrompt env i =
     try_catch
       (bnd (db_delete_Prompts_where_id env i) (\<lambda>_. revalidatePath env ''/prompts''))
       (\<lambda>err. bnd (console_error err) (\<lambda>_. throw (Error ''Error deleting prompt'')))"

section \<open>Settings\<close>

text \<open>
  \<^verbatim>\<open>const [result] = await db.select().from(Settings).limit(1)\<close>: the first row, or
  \<^verbatim>\<open>undefined\<close> (here \<open>None\<close>) when the query returns no row.
\<close>

definition getAllSettings :: "env \<Rightarrow> settings_row option act" where
  "getAllSettings env =
     try_catch
       (bnd (db_select env DbSelectSettings (\<lambda>w. take 1 (Settings w)))
          (\<lambda>rows. ret (case rows of [] \<Rightarrow> None | result # _ \<Rightarrow> Some result)))
       (\<lambda>err. bnd (console_error err) (\<lambda>_. throw (Error ''Error fetching settings'')))"

definition updateSettings :: "env \<Rightarrow> string FormData \<Rightarrow> unit act" where
  "updateSettings env formData =
     (let username = map_option (slice0 100) (formData ''username'');
          system = map_option (slice0 1000) (formData ''system'')
      in try_catch
           (bnd (db_select env DbSelectSettings Settings)
              (\<lambda>settings.
                 bnd (if length settings = 0 then db_insert_Settings env username system
                      else bnd (db_delete_Settings env)
                             (\<lambda>_. db_insert_Settings env username system))
                   (\<lambda>_. revalidatePath env ''/settings'')))
           (\<lambda>err. bnd (console_error err) (\<lambda>_. throw (Error ''Error updating settings''))))"

section \<open>Documents\<close>

text \<open>
  \<^verbatim>\<open>fileName.split('.')\<close>: the pieces between the separators, never an empty
  array. \<^verbatim>\<open>pop()\<close> takes the last piece (\<^verbatim>\<open>undefined\<close> from an empty array,
  which \<^verbatim>\<open>'.' + \<close> would print as the word).
\<close>

fun str_split :: "char \<Rightarrow> string \<Rightarrow> string list" where
  "str_split sep [] = [[]]"
| "str_split sep (c # cs) =
     (if c = sep then [] # str_split sep cs
      else (case str_split sep cs of [] \<Rightarrow> [[c]] | p # ps \<Rightarrow> (c # p) # ps))"

definition pop :: "'a list \<Rightarrow> 'a option" where
  "pop xs = (if xs = [] then None else Some (last xs))"

definition fileExtension :: "string \<Rightarrow> string" where
  "fileExtension fileName =
     ''.'' @ (case pop (str_split (CHR ''.'') fileName) of
                None \<Rightarrow> ''undefined'' | Some piece \<Rightarrow> piece)"

text \<open>
  The block guarded by \<^verbatim>\<open>SAVE_RAW_DOCUMENT_LOCAL\<close>: create the folder, write the
  bytes under the file's name; its own \<^verbatim>\<open>catch\<close> logs and throws the local-write
  error.
\<close>

definition saveRawDocument :: "env \<Rightarrow> string \<Rightarrow> string \<Rightarrow> unit act" where
  "saveRawDocument env fileName fileBuffer =
     (if SAVE_RAW_DOCUMENT_LOCAL env then
        try_catch
          (bnd (extern env FsMkdir)
             (\<lambda>_. bnd (extern env FsWriteFile)
                (\<lambda>_. modify (\<lambda>w. w\<lparr>disk := disk w @ [(fileName, fileBuffer)]\<rparr>))))
          (\<lambda>err. bnd (console_error err) (\<lambda>_. throw (Error ''Error writing file locally'')))
      else ret ())"

text \<open>The \<^verbatim>\<open>switch\<close> on the extension; it has no default, so the text stays empty.\<close>

definition extractRawText :: "env \<Rightarrow> string \<Rightarrow> File \<Rightarrow> string \<Rightarrow> string act" where
  "extractRawText env fileExt file fileBuffer =
     (if fileExt = ''.txt'' then bnd (extern env FileText) (\<lambda>_. ret (file_bytes file))
      else if fileExt = ''.pdf'' then bnd (extern env PdfParse) (\<lambda>_. ret (pdf_text env fileBuffer))
      else if fileExt = ''.docx'' then
        bnd (extern env MammothExtractRawText) (\<lambda>_. ret (docx_text env fileBuffer))
      else ret [])"

text \<open>Modelled from the spec: the helper \<^verbatim>\<open>chunkUpText\<close> of
  \<^verbatim>\<open>@/helpers/textProcessing\<close> is not among the sources. It returns the ordered chunks
  the surroundings compute for the text, or throws.\<close>

definition chunkUpText :: "env \<Rightarrow> string \<Rightarrow> string list act" where
  "chunkUpText env txt = bnd (extern env ChunkUpText) (\<lambda>_. ret (chunks_of env txt))"

text \<open>Modelled from the spec: the helper \<^verbatim>\<open>generateEmbedding\<close> of
  \<^verbatim>\<open>@/helpers/textProcessing\<close> is not among the sources. It returns the vectors the
  surroundings compute for the chunks, or throws.\<close>

definition generateEmbedding :: "env \<Rightarrow> string list \<Rightarrow> int list list act" where
  "generateEmbedding env chunks =
     bnd (extern env GenerateEmbedding) (\<lambda>_. ret (vectors_of env chunks))"

text \<open>Modelled from the spec: the helper \<^verbatim>\<open>bulkInsertEmbeddings\<close> of
  \<^verbatim>\<open>@/helpers/textProcessing\<close> is not among the sources. It stores one row per
  (chunk, vector) pair, all owned by the given document, as one atomic unit: when it
  throws, no row is stored.\<close>

definition bulkInsertEmbeddings :: "env \<Rightarrow> string list \<Rightarrow> int list list \<Rightarrow> nat \<Rightarrow> unit act" where
  "bulkInsertEmbeddings env chunks embeddings docId =
     bnd (extern env BulkInsertEmbeddings)
       (\<lambda>_. modify (\<lambda>w. w\<lparr>Embeddings := Embeddings w @
          map (\<lambda>(c, v). \<lparr>chunk = c, embedding = v, documentId = docId\<rparr>)
            (zip chunks embeddings)\<rparr>))"

text \<open>The inner \<^verbatim>\<open>try\<close>: extract, chunk, embed, store; its \<^verbatim>\<open>catch\<close> logs and
  throws the embedding error.\<close>

definition embedDocument :: "env \<Rightarrow> string \<Rightarrow> File \<Rightarrow> string \<Rightarrow> document_row \<Rightarrow> unit act" where
  "embedDocument env fileExt file fileBuffer createdDocument =
     try_catch
       (bnd (extractRawText env fileExt file fileBuffer)
          (\<lambda>extractedRawText. bnd (chunkUpText env extractedRawText)
             (\<lambda>chunkedText. bnd (generateEmbedding env chunkedText)
                (\<lambda>embeddings.
                   bulkInsertEmbeddings env chunkedText embeddings (doc_id createdDocument)))))
       (\<lambda>err. bnd (console_error err) (\<lambda>_. throw (Error ''Error embedding document'')))"

definition arrayBuffer :: "env \<Rightarrow> File \<Rightarrow> string act" where
  "arrayBuffer env file = bnd (extern env FileArrayBuffer) (\<lambda>_. ret (file_bytes file))"

text \<open>
  When the \<^verbatim>\<open>file\<close> entry is a string, \<^verbatim>\<open>!file\<close> holds only for the empty one.
  A non-empty string has no \<^verbatim>\<open>name\<close>, so \<^verbatim>\<open>fileName\<close> is \<^verbatim>\<open>undefined\<close>
  and \<^verbatim>\<open>fileName.split('.')\<close> throws a \<^verbatim>\<open>TypeError\<close> with this message.
\<close>

definition split_of_undefined :: string where
  "split_of_undefined =
     ''Cannot read properties of undefined (reading '' @ [CHR 0x27] @ ''split''
       @ [CHR 0x27] @ '')''"

definition uploadFile :: "env \<Rightarrow> entry FormData \<Rightarrow> unit act" where
  "uploadFile env formData =
     try_catch
       (case formData ''file'' of
          None \<Rightarrow> throw (Error ''No file provided'')
        | Some (StringEntry s) \<Rightarrow>
            if s = [] then throw (Error ''No file provided'')
            else throw (Error split_of_undefined)
        | Some (FileEntry file) \<Rightarrow>
            (let fileName = file_name file;
                 fileExt = fileExtension fileName
             in if fileExt \<notin> set [''.txt'', ''.pdf'', ''.docx'']
                then throw (Error ''Invalid file type'')
                else
                  bnd (db_select_Documents_where_name env (file_name file))
                    (\<lambda>rows. case rows of
                       doesDocumentExist # _ \<Rightarrow> throw (Error ''This document already exists'')
                     | [] \<Rightarrow>
                         bnd (db_insert_Documents_returning env
                                (file_name file) (file_size file) fileExt)
                           (\<lambda>createdDocument. bnd (arrayBuffer env file)
                              (\<lambda>fileBuffer. bnd (saveRawDocument env fileName fileBuffer)
                                 (\<lambda>_. embedDocument env fileExt file fileBuffer
                                        createdDocument))))))
       (\<lambda>err. case err of
                Error message \<Rightarrow> throw (Error message)
              | NonError \<Rightarrow> throw (Error ''Error uploading file''))"

definition getAllDocuments :: "env \<Rightarrow> document_row list act" where
  "getAllDocuments env =
     try_catch
       (bnd (db_select_Documents_orderBy_desc_createdAt env) (\<lambda>documents. ret documents))
       (\<lambda>err. bnd (console_error err) (\<lambda>_. throw (Error ''Error fetching documents'')))"

section \<open>Sequences of settings updates\<close>

fun updateSettings_seq :: "(env \<times> string FormData) list \<Rightarrow> world \<Rightarrow> (exn + unit) list \<times> world" where
  "updateSettings_seq [] w = ([], w)"
| "updateSettings_seq ((env, formData) # calls) w =
     (case updateSettings env formData w of
        (r, w') \<Rightarrow> (case updateSettings_seq calls w' of (rs, w'') \<Rightarrow> (r # rs, w'')))"

section \<open>Notions the properties are stated with\<close>

text \<open>How the outer \<^verbatim>\<open>catch\<close> of \<^verbatim>\<open>uploadFile\<close> rethrows what it caught.\<close>

definition rethrown :: "exn \<Rightarrow> exn" where
  "rethrown err = (case err of Error message \<Rightarrow> Error message
                   | NonError \<Rightarrow> Error ''Error uploading file'')"

text \<open>The messages \<^verbatim>\<open>uploadFile\<close> throws itself: missing file, invalid type, duplicate,
  local write, embedding.\<close>

definition upload_failure_messages :: "string list" where
  "upload_failure_messages =
     [''No file provided'', ''Invalid file type'', ''This document already exists'',
      ''Error writing file locally'', ''Error embedding document'']"

text \<open>The row \<^verbatim>\<open>uploadFile\<close> inserts for a file, and the world right after the insert.\<close>

definition created_row :: "env \<Rightarrow> File \<Rightarrow> document_row" where
  "created_row env file =
     \<lparr>doc_id = new_id env, doc_name = file_name file, doc_size = file_size file,
      doc_extension = fileExtension (file_name file), createdAt = now env\<rparr>"

definition after_insert :: "env \<Rightarrow> File \<Rightarrow> world \<Rightarrow> world" where
  "after_insert env file w =
     w\<lparr>trace := trace w @ [DbSelectDocuments, DbInsertDocuments],
       Documents := Documents w @ [created_row env file]\<rparr>"

text \<open>Which step after the insert throws: the parser call the \<^verbatim>\<open>switch\<close> makes for an
  extension, a failing local write (only attempted when the flag is set), a failing
  step of the inner \<^verbatim>\<open>try\<close>.\<close>

definition extract_call :: "string \<Rightarrow> call option" where
  "extract_call fileExt =
     (if fileExt = ''.txt'' then Some FileText
      else if fileExt = ''.pdf'' then Some PdfParse
      else if fileExt = ''.docx'' then Some MammothExtractRawText
      else None)"

definition local_write_fails :: "env \<Rightarrow> bool" where
  "local_write_fails env =
     (SAVE_RAW_DOCUMENT_LOCAL env \<and> (fault env FsMkdir \<noteq> None \<or> fault env FsWriteFile \<noteq> None))"

definition embedding_branch_fails :: "env \<Rightarrow> string \<Rightarrow> bool" where
  "embedding_branch_fails env fileExt =
     ((case extract_call fileExt of Some c \<Rightarrow> fault env c \<noteq> None | None \<Rightarrow> False)
      \<or> fault env ChunkUpText \<noteq> None \<or> fault env GenerateEmbedding \<noteq> None
      \<or> fault env BulkInsertEmbeddings \<noteq> None)"

definition later_step_fails :: "env \<Rightarrow> string \<Rightarrow> bool" where
  "later_step_fails env fileExt =
     (fault env FileArrayBuffer \<noteq> None \<or> local_write_fails env
      \<or> embedding_branch_fails env fileExt)"

text \<open>The outcome of an upload by its cause, in the order the checks and steps run.\<close>

definition upload_outcome :: "env \<Rightarrow> entry FormData \<Rightarrow> world \<Rightarrow> exn + unit" where
  "upload_outcome env formData w =
     (case formData ''file'' of
        None \<Rightarrow> Inl (Error ''No file provided'')
      | Some (StringEntry s) \<Rightarrow>
          if s = [] then Inl (Error ''No file provided'') else Inl (Error split_of_undefined)
      | Some (FileEntry f) \<Rightarrow>
          if fileExtension (file_name f) \<notin> set [''.txt'', ''.pdf'', ''.docx'']
          then Inl (Error ''Invalid file type'')
          else
            (case fault env DbSelectDocuments of
               Some x \<Rightarrow> Inl (rethrown x)
             | None \<Rightarrow>
                 if filter (\<lambda>d. doc_name d = file_name f) (Documents w) \<noteq> []
                 then Inl (Error ''This document already exists'')
                 else
                   (case fault env DbInsertDocuments of
                      Some x \<Rightarrow> Inl (rethrown x)
                    | None \<Rightarrow>
                        (case fault env FileArrayBuffer of
                           Some x \<Rightarrow> Inl (rethrown x)
                         | None \<Rightarrow>
                             if local_write_fails env
                             then Inl (Error ''Error writing file locally'')
                             else if embedding_branch_fails env (fileExtension (file_name f))
                                  then Inl (Error ''Error embedding document'')
                                  else Inr ()))))"

text \<open>Every stored document has a name that passes the extension check of
  \<^verbatim>\<open>uploadFile\<close>, the only action that inserts documents.\<close>

definition accepted_names :: "world \<Rightarrow> bool" where
  "accepted_names w =
     (\<forall>d \<in> set (Documents w). fileExtension (doc_name d) \<in> set [''.txt'', ''.pdf'', ''.docx''])"

text \<open>A string without upper-case letters.\<close>

definition lowercase :: "string \<Rightarrow> bool" where
  "lowercase s = (\<forall>c \<in> set s. c \<notin> set ''ABCDEFGHIJKLMNOPQRSTUVWXYZ'')"

text \<open>The row a settings form submits.\<close>

definition submitted_settings :: "string FormData \<Rightarrow> settings_row" where
  "submitted_settings formData =
     \<lparr>username = map_option (slice0 100) (formData ''username''),
      system = map_option (slice0 1000) (formData ''system'')\<rparr>"

section \<open>Sample inputs\<close>

definition quiet_env :: env where
  "quiet_env =
     \<lparr>fault = (\<lambda>_. None), new_id = 1, now = 10, SAVE_RAW_DOCUMENT_LOCAL = True,
      pdf_text = (\<lambda>b. b), docx_text = (\<lambda>b. b), chunks_of = (\<lambda>t. [t]),
      vectors_of = map (\<lambda>_. [0])\<rparr>"

definition throwing :: "call \<Rightarrow> exn \<Rightarrow> env" where
  "throwing c e = quiet_env\<lparr>fault := (\<lambda>c'. if c' = c then Some e else None)\<rparr>"

definition empty_world :: world where
  "empty_world =
     \<lparr>Prompts = [], Settings = [], Documents = [], Embeddings = [], disk = [],
      console = [], trace = []\<rparr>"

definition notes_txt :: File where
  "notes_txt = \<lparr>file_name = ''notes.txt'', file_size = 5, file_bytes = ''hello''\<rparr>"

definition report_exe :: File where
  "report_exe = \<lparr>file_name = ''report.exe'', file_size = 2, file_bytes = ''MZ''\<rparr>"

definition REPORT_TXT :: File where
  "REPORT_TXT = \<lparr>file_name = ''REPORT.TXT'', file_size = 5, file_bytes = ''hello''\<rparr>"

definition pdf_file :: File where
  "pdf_file = \<lparr>file_name = ''pdf'', file_size = 4, file_bytes = ''%PDF''\<rparr>"

definition file_form :: "File \<Rightarrow> entry FormData" where
  "file_form f = (\<lambda>k. if k = ''file'' then Some (FileEntry f) else None)"

definition string_form :: "string \<Rightarrow> entry FormData" where
  "string_form s = (\<lambda>k. if k = ''file'' then Some (StringEntry s) else None)"

definition prompt_form :: "string FormData" where
  "prompt_form = (\<lambda>k. if k = ''title'' then Some ''Greeting''
                       else if k = ''prompt'' then Some ''Say hello'' else None)"

definition settings_form :: "string \<Rightarrow> string FormData" where
  "settings_form u = (\<lambda>k. if k = ''username'' then Some u
                          else if k = ''system'' then Some ''Be brief'' else None)"

definition world_with_notes :: world where
  "world_with_notes =
     empty_world\<lparr>Documents := [\<lparr>doc_id = 1, doc_name = ''notes.txt'', doc_size = 5,
                                   doc_extension = ''.txt'', createdAt = 10\<rparr>],
                  Embeddings := [\<lparr>chunk = ''hello'', embedding = [0], documentId = 1\<rparr>]\<rparr>"

definition world_two_documents :: world where
  "world_two_documents =
     empty_world\<lparr>Documents := [\<lparr>doc_id = 1, doc_name = ''notes.txt'', doc_size = 5,
                                   doc_extension = ''.txt'', createdAt = 10\<rparr>,
                                 \<lparr>doc_id = 2, doc_name = ''paper.pdf'', doc_size = 9,
                                   doc_extension = ''.pdf'', createdAt = 20\<rparr>]\<rparr>"

section \<open>Unfolding the actions\<close>

lemmas act_defs = ret_def throw_def bnd_def try_catch_def modify_def extern_def
  console_error_def revalidatePath_def db_select_def

lemmas upload_defs = db_select_Documents_where_name_def
  db_insert_Documents_returning_def arrayBuffer_def saveRawDocument_def embedDocument_def
  extractRawText_def chunkUpText_def generateEmbedding_def bulkInsertEmbeddings_def

lemmas settings_defs = updateSettings_def db_delete_Settings_def db_insert_Settings_def

lemmas sample_defs = quiet_env_def throwing_def empty_world_def notes_txt_def
  report_exe_def REPORT_TXT_def file_form_def prompt_form_def settings_form_def
  world_with_notes_def

section \<open>Splitting a file name\<close>

lemma str_split_not_Nil: "str_split sep s \<noteq> []"
  by (induction s) (auto split: list.splits)

lemma str_split_no_sep: "sep \<notin> set s \<Longrightarrow> str_split sep s = [s]"
  by (induction s) auto

lemma str_split_two_pieces: "\<exists>p q qs. str_split sep (base @ sep # e) = p # q # qs"
proof (induction base)
  case Nil
  then show ?case by (cases "str_split sep e") (auto simp: str_split_not_Nil)
next
  case (Cons c base)
  then show ?case by auto
qed

lemma last_str_split_append:
  "last (str_split sep (base @ sep # e)) = last (str_split sep e)"
proof (induction base)
  case Nil
  then show ?case by (simp add: str_split_not_Nil)
next
  case (Cons c base)
  obtain p q qs where "str_split sep (base @ sep # e) = p # q # qs"
    using str_split_two_pieces by blast
  with Cons show ?case by auto
qed

lemma fileExtension_last: "fileExtension n = CHR ''.'' # last (str_split (CHR ''.'') n)"
  by (simp add: fileExtension_def pop_def str_split_not_Nil)

lemma fileExtension_dotted:
  "CHR ''.'' \<notin> set e \<Longrightarrow> fileExtension (base @ ''.'' @ e) = ''.'' @ e"
  by (simp add: fileExtension_last last_str_split_append str_split_no_sep)

lemma fileExtension_no_dot:
  "CHR ''.'' \<notin> set n \<Longrightarrow> fileExtension n = ''.'' @ n"
  by (simp add: fileExtension_last str_split_no_sep)

lemma fileExtension_samples:
  "fileExtension ''notes.txt'' = ''.txt''"
  "fileExtension ''report.exe'' = ''.exe''"
  "fileExtension ''REPORT.TXT'' = ''.TXT''"
  using fileExtension_dotted[of "''txt''" "''notes''"]
    fileExtension_dotted[of "''exe''" "''report''"]
    fileExtension_dotted[of "''TXT''" "''REPORT''"]
  by simp_all

section \<open>The phases of an upload\<close>

lemma uploadFile_no_file:
  "formData ''file'' = None \<Longrightarrow>
   uploadFile env formData w = (Inl (Error ''No file provided''), w)"
  by (simp add: uploadFile_def act_defs)

lemma uploadFile_empty_string:
  "formData ''file'' = Some (StringEntry []) \<Longrightarrow>
   uploadFile env formData w = (Inl (Error ''No file provided''), w)"
  by (simp add: uploadFile_def act_defs)

lemma uploadFile_string:
  "formData ''file'' = Some (StringEntry s) \<Longrightarrow> s \<noteq> [] \<Longrightarrow>
   uploadFile env formData w = (Inl (Error split_of_undefined), w)"
  by (simp add: uploadFile_def act_defs)

lemma uploadFile_invalid_type:
  assumes "formData ''file'' = Some (FileEntry f)"
    and "fileExtension (file_name f) \<notin> set [''.txt'', ''.pdf'', ''.docx'']"
  shows "uploadFile env formData w = (Inl (Error ''Invalid file type''), w)"
  using assms by (simp add: uploadFile_def act_defs)

lemma uploadFile_lookup_throws:
  assumes "formData ''file'' = Some (FileEntry f)"
    and "fileExtension (file_name f) \<in> set [''.txt'', ''.pdf'', ''.docx'']"
    and "fault env DbSelectDocuments = Some e"
  shows "uploadFile env formData w =
           (Inl (rethrown e), w\<lparr>trace := trace w @ [DbSelectDocuments]\<rparr>)"
  using assms
  by (auto simp add: uploadFile_def db_select_Documents_where_name_def act_defs Let_def
        rethrown_def split: exn.splits)

lemma uploadFile_duplicate:
  assumes "formData ''file'' = Some (FileEntry f)"
    and "fileExtension (file_name f) \<in> set [''.txt'', ''.pdf'', ''.docx'']"
    and "fault env DbSelectDocuments = None"
    and "filter (\<lambda>d. doc_name d = file_name f) (Documents w) \<noteq> []"
  shows "uploadFile env formData w =
           (Inl (Error ''This document already exists''),
            w\<lparr>trace := trace w @ [DbSelectDocuments]\<rparr>)"
  using assms
  by (auto simp add: uploadFile_def db_select_Documents_where_name_def act_defs Let_def
        split: list.splits)

lemma uploadFile_insert_throws:
  assumes "formData ''file'' = Some (FileEntry f)"
    and "fileExtension (file_name f) \<in> set [''.txt'', ''.pdf'', ''.docx'']"
    and "fault env DbSelectDocuments = None"
    and "filter (\<lambda>d. doc_name d = file_name f) (Documents w) = []"
    and "fault env DbInsertDocuments = Some e"
  shows "uploadFile env formData w =
           (Inl (rethrown e),
            w\<lparr>trace := trace w @ [DbSelectDocuments, DbInsertDocuments]\<rparr>)"
  using assms
  by (auto simp add: uploadFile_def db_select_Documents_where_name_def
        db_insert_Documents_returning_def act_defs Let_def rethrown_def split: exn.splits)

lemma uploadFile_created:
  assumes "formData ''file'' = Some (FileEntry f)"
    and "fileExtension (file_name f) \<in> set [''.txt'', ''.pdf'', ''.docx'']"
    and "fault env DbSelectDocuments = None"
    and "filter (\<lambda>d. doc_name d = file_name f) (Documents w) = []"
    and "fault env DbInsertDocuments = None"
  shows "uploadFile env formData w =
           try_catch
             (bnd (arrayBuffer env f)
                (\<lambda>fileBuffer. bnd (saveRawDocument env (file_name f) fileBuffer)
                   (\<lambda>_. embedDocument env (fileExtension (file_name f)) f fileBuffer
                          (created_row env f))))
             (\<lambda>err. throw (rethrown err))
             (after_insert env f w)"
proof -
  have h: "(\<lambda>err. case err of Error message \<Rightarrow> throw (Error message)
                 | NonError \<Rightarrow> throw (Error ''Error uploading file''))
           = (\<lambda>err. throw (rethrown err))"
    by (auto simp add: rethrown_def fun_eq_iff split: exn.splits)
  show ?thesis
    using assms
    unfolding uploadFile_def h
    by (auto simp add: db_select_Documents_where_name_def db_insert_Documents_returning_def
          created_row_def after_insert_def Let_def
          ret_def throw_def bnd_def try_catch_def modify_def extern_def db_select_def)
qed

lemma saveRawDocument_result:
  "fst (saveRawDocument env n buf w) =
     (if local_write_fails env then Inl (Error ''Error writing file locally'') else Inr ())"
  "Documents (snd (saveRawDocument env n buf w)) = Documents w"
  "Embeddings (snd (saveRawDocument env n buf w)) = Embeddings w"
  by (auto simp add: local_write_fails_def upload_defs act_defs split: option.splits)

lemma embedDocument_result:
  "fst (embedDocument env fileExt f buf row w) =
     (if embedding_branch_fails env fileExt then Inl (Error ''Error embedding document'')
      else Inr ())"
  by (auto simp add: embedding_branch_fails_def extract_call_def upload_defs act_defs
        split: option.splits)

lemma embedDocument_Documents:
  "Documents (snd (embedDocument env fileExt f buf row w)) = Documents w"
  by (auto simp add: upload_defs act_defs split: option.splits)

lemma embedDocument_fails_Embeddings:
  assumes "embedding_branch_fails env fileExt"
  shows "Embeddings (snd (embedDocument env fileExt f buf row w)) = Embeddings w"
  using assms
  by (auto simp add: embedding_branch_fails_def extract_call_def upload_defs act_defs
        split: option.splits if_splits)

lemma pipeline_result:
  assumes a: "try_catch
     (bnd (arrayBuffer env f)
        (\<lambda>fileBuffer. bnd (saveRawDocument env n fileBuffer)
           (\<lambda>_. embedDocument env fileExt f fileBuffer row)))
     (\<lambda>err. throw (rethrown err)) w1 = (r, w2)"
  shows "Documents w2 = Documents w1
   \<and> r = (case fault env FileArrayBuffer of
             Some e \<Rightarrow> Inl (rethrown e)
           | None \<Rightarrow>
               if local_write_fails env then Inl (Error ''Error writing file locally'')
               else if embedding_branch_fails env fileExt
                    then Inl (Error ''Error embedding document'')
                    else Inr ())
   \<and> (r \<noteq> Inr () \<longrightarrow> Embeddings w2 = Embeddings w1)"
proof -
  let ?wa = "w1\<lparr>trace := trace w1 @ [FileArrayBuffer]\<rparr>"
  let ?buf = "file_bytes f"
  obtain rs ws where s: "saveRawDocument env n ?buf ?wa = (rs, ws)"
    by (cases "saveRawDocument env n ?buf ?wa")
  obtain re we where e: "embedDocument env fileExt f ?buf row ws = (re, we)"
    by (cases "embedDocument env fileExt f ?buf row ws")
  have rs: "rs = (if local_write_fails env then Inl (Error ''Error writing file locally'')
                  else Inr ())"
    and ws: "Documents ws = Documents ?wa" "Embeddings ws = Embeddings ?wa"
    using saveRawDocument_result[of env n ?buf ?wa] s by simp_all
  have re: "re = (if embedding_branch_fails env fileExt
                  then Inl (Error ''Error embedding document'') else Inr ())"
    and we: "Documents we = Documents ws"
    using embedDocument_result[of env fileExt "f" ?buf row ws]
      embedDocument_Documents[of env fileExt "f" ?buf row ws] e by simp_all
  have we2: "embedding_branch_fails env fileExt \<Longrightarrow> Embeddings we = Embeddings ws"
    using embedDocument_fails_Embeddings[of env fileExt "f" ?buf row ws] e by simp
  show ?thesis
  proof (cases "fault env FileArrayBuffer")
    case (Some x)
    with a show ?thesis
      by (auto simp add: arrayBuffer_def try_catch_def bnd_def extern_def throw_def ret_def
            rethrown_def split: exn.splits)
  next
    case None
    with a s e rs re ws we we2 show ?thesis
      by (auto simp add: arrayBuffer_def try_catch_def bnd_def extern_def throw_def ret_def
            rethrown_def split: if_splits)
  qed
qed

lemma uploadFile_after_insert:
  assumes "formData ''file'' = Some (FileEntry f)"
    and "fileExtension (file_name f) \<in> set [''.txt'', ''.pdf'', ''.docx'']"
    and "fault env DbSelectDocuments = None"
    and "filter (\<lambda>d. doc_name d = file_name f) (Documents w) = []"
    and "fault env DbInsertDocuments = None"
  shows "Documents (snd (uploadFile env formData w)) = Documents w @ [created_row env f]"
    and "fst (uploadFile env formData w) =
           (case fault env FileArrayBuffer of
              Some e \<Rightarrow> Inl (rethrown e)
            | None \<Rightarrow>
                if local_write_fails env then Inl (Error ''Error writing file locally'')
                else if embedding_branch_fails env (fileExtension (file_name f))
                     then Inl (Error ''Error embedding document'')
                     else Inr ())"
    and "fst (uploadFile env formData w) \<noteq> Inr () \<Longrightarrow>
           Embeddings (snd (uploadFile env formData w)) = Embeddings w"
proof -
  obtain r w2 where u: "uploadFile env formData w = (r, w2)"
    by (cases "uploadFile env formData w")
  from pipeline_result[OF u[unfolded uploadFile_created[where formData=formData, OF assms]]]
  have p: "Documents w2 = Documents (after_insert env f w)"
    "r = (case fault env FileArrayBuffer of
             Some e \<Rightarrow> Inl (rethrown e)
           | None \<Rightarrow>
               if local_write_fails env then Inl (Error ''Error writing file locally'')
               else if embedding_branch_fails env (fileExtension (file_name f))
                    then Inl (Error ''Error embedding document'')
                    else Inr ())"
    "r \<noteq> Inr () \<longrightarrow> Embeddings w2 = Embeddings (after_insert env f w)"
    by simp_all
  show "Documents (snd (uploadFile env formData w)) = Documents w @ [created_row env f]"
    using p(1) u by (simp add: after_insert_def)
  show "fst (uploadFile env formData w) =
           (case fault env FileArrayBuffer of
              Some e \<Rightarrow> Inl (rethrown e)
            | None \<Rightarrow>
                if local_write_fails env then Inl (Error ''Error writing file locally'')
                else if embedding_branch_fails env (fileExtension (file_name f))
                     then Inl (Error ''Error embedding document'')
                     else Inr ())"
    using p(2) u by simp
  show "fst (uploadFile env formData w) \<noteq> Inr () \<Longrightarrow>
           Embeddings (snd (uploadFile env formData w)) = Embeddings w"
    using p(3) u by (simp add: after_insert_def)
qed

lemma rethrown_message:
  "\<exists>m. rethrown e = Error m \<and> (m = ''Error uploading file'' \<or> e = Error m)"
  by (cases e) (simp_all add: rethrown_def)

lemma uploadFile_result_cases:
  "(fst (uploadFile env formData w) = Inr ()
      \<and> (\<exists>f. formData ''file'' = Some (FileEntry f)
            \<and> Documents (snd (uploadFile env formData w)) = Documents w @ [created_row env f]))
   \<or> (\<exists>m. fst (uploadFile env formData w) = Inl (Error m)
         \<and> (m \<in> set upload_failure_messages \<or> m = ''Error uploading file''
            \<or> m = split_of_undefined
            \<or> fault env DbSelectDocuments = Some (Error m)
            \<or> fault env DbInsertDocuments = Some (Error m)
            \<or> fault env FileArrayBuffer = Some (Error m)))"
proof (cases "formData ''file''")
  case None
  then show ?thesis
    by (simp add: uploadFile_no_file upload_failure_messages_def)
next
  case (Some en)
  show ?thesis
  proof (cases en)
    case (StringEntry s)
    with Some show ?thesis
      by (cases "s = []") (simp_all add: uploadFile_empty_string uploadFile_string
            upload_failure_messages_def)
  next
    case (FileEntry f)
    with Some have present: "formData ''file'' = Some (FileEntry f)" by simp
    show ?thesis
    proof (cases "fileExtension (file_name f) \<in> set [''.txt'', ''.pdf'', ''.docx'']")
    case False
    with present show ?thesis
      by (simp add: uploadFile_invalid_type upload_failure_messages_def)
  next
    case ext: True
    show ?thesis
    proof (cases "fault env DbSelectDocuments")
      case (Some e)
      obtain m where "rethrown e = Error m" "m = ''Error uploading file'' \<or> e = Error m"
        using rethrown_message by blast
      with Some show ?thesis
        using uploadFile_lookup_throws[where formData=formData and w=w, OF present ext Some]
        by auto
    next
      case lookup: None
      show ?thesis
      proof (cases "filter (\<lambda>d. doc_name d = file_name f) (Documents w) = []")
        case False
        then show ?thesis
          using uploadFile_duplicate[where formData=formData, OF present ext lookup False]
          by (simp add: upload_failure_messages_def)
      next
        case fresh: True
        show ?thesis
        proof (cases "fault env DbInsertDocuments")
          case (Some e)
          obtain m where "rethrown e = Error m" "m = ''Error uploading file'' \<or> e = Error m"
            using rethrown_message by blast
          with Some show ?thesis
            using uploadFile_insert_throws[where formData=formData, OF present ext lookup
                fresh Some]
            by auto
        next
          case ins: None
          note ai = uploadFile_after_insert[where formData=formData, OF present ext lookup
              fresh ins]
          show ?thesis
          proof (cases "fault env FileArrayBuffer")
            case (Some e)
            obtain m where "rethrown e = Error m" "m = ''Error uploading file'' \<or> e = Error m"
              using rethrown_message by blast
            with Some ai(2) show ?thesis by auto
          next
            case None
            with ai(1,2) present show ?thesis
              by (auto simp add: upload_failure_messages_def)
          qed
        qed
      qed
    qed
  qed
  qed
qed

lemma uploadFile_failure_message:
  assumes "fst (uploadFile env formData w) = Inl e"
  shows "\<exists>m. e = Error m
           \<and> (m \<in> set upload_failure_messages \<or> m = ''Error uploading file''
              \<or> m = split_of_undefined
              \<or> fault env DbSelectDocuments = Some (Error m)
              \<or> fault env DbInsertDocuments = Some (Error m)
              \<or> fault env FileArrayBuffer = Some (Error m))"
  using assms uploadFile_result_cases[of env formData w] by auto

lemma uploadFile_success_created:
  assumes "fst (uploadFile env formData w) = Inr u"
  shows "\<exists>f. formData ''file'' = Some (FileEntry f)
           \<and> Documents (snd (uploadFile env formData w)) = Documents w @ [created_row env f]"
  using assms uploadFile_result_cases[of env formData w] by auto

lemma uploadFile_fst: "fst (uploadFile env formData w) = upload_outcome env formData w"
proof (cases "formData ''file''")
  case None
  then show ?thesis by (simp add: uploadFile_no_file upload_outcome_def)
next
  case (Some en)
  show ?thesis
  proof (cases en)
    case (StringEntry s)
    with Some show ?thesis
      by (cases "s = []") (simp_all add: uploadFile_empty_string uploadFile_string
            upload_outcome_def)
  next
    case (FileEntry f)
    with Some have present: "formData ''file'' = Some (FileEntry f)" by simp
    show ?thesis
    proof (cases "fileExtension (file_name f) \<in> set [''.txt'', ''.pdf'', ''.docx'']")
      case False
      with present show ?thesis
        by (simp add: uploadFile_invalid_type upload_outcome_def)
    next
      case ext: True
      show ?thesis
      proof (cases "fault env DbSelectDocuments")
        case (Some x)
        with present ext show ?thesis
          using uploadFile_lookup_throws[where formData=formData and w=w, OF present ext Some]
          by (simp add: upload_outcome_def)
      next
        case lookup: None
        show ?thesis
        proof (cases "filter (\<lambda>d. doc_name d = file_name f) (Documents w) = []")
          case False
          with present ext lookup show ?thesis
            using uploadFile_duplicate[where formData=formData, OF present ext lookup False]
            by (simp add: upload_outcome_def)
        next
          case fresh: True
          show ?thesis
          proof (cases "fault env DbInsertDocuments")
            case (Some x)
            with present ext lookup fresh show ?thesis
              using uploadFile_insert_throws[where formData=formData, OF present ext lookup
                  fresh Some]
              by (simp add: upload_outcome_def)
          next
            case ins: None
            with present ext lookup fresh show ?thesis
              using uploadFile_after_insert(2)[where formData=formData, OF present ext
                  lookup fresh ins]
              by (simp add: upload_outcome_def)
          qed
        qed
      qed
    qed
  qed
qed

lemma uploadFile_Documents:
  "Documents (snd (uploadFile env formData w)) = Documents w
   \<or> (\<exists>f. formData ''file'' = Some (FileEntry f)
         \<and> fileExtension (file_name f) \<in> set [''.txt'', ''.pdf'', ''.docx'']
         \<and> filter (\<lambda>d. doc_name d = file_name f) (Documents w) = []
         \<and> Documents (snd (uploadFile env formData w)) = Documents w @ [created_row env f])"
proof (cases "formData ''file''")
  case None
  then show ?thesis by (simp add: uploadFile_no_file)
next
  case (Some en)
  show ?thesis
  proof (cases en)
    case (StringEntry s)
    with Some show ?thesis
      by (cases "s = []") (simp_all add: uploadFile_empty_string uploadFile_string)
  next
    case (FileEntry f)
    with Some have present: "formData ''file'' = Some (FileEntry f)" by simp
    show ?thesis
    proof (cases "fileExtension (file_name f) \<in> set [''.txt'', ''.pdf'', ''.docx'']")
    case False
    with present show ?thesis by (simp add: uploadFile_invalid_type)
  next
    case ext: True
    show ?thesis
    proof (cases "fault env DbSelectDocuments")
      case (Some e)
      show ?thesis
        using uploadFile_lookup_throws[where formData=formData and w=w, OF present ext Some]
        by simp
    next
      case lookup: None
      show ?thesis
      proof (cases "filter (\<lambda>d. doc_name d = file_name f) (Documents w) = []")
        case False
        then show ?thesis
          using uploadFile_duplicate[where formData=formData, OF present ext lookup False]
          by simp
      next
        case fresh: True
        show ?thesis
        proof (cases "fault env DbInsertDocuments")
          case (Some e)
          show ?thesis
            using uploadFile_insert_throws[where formData=formData, OF present ext lookup
                fresh Some]
            by simp
        next
          case ins: None
          show ?thesis
            using uploadFile_after_insert(1)[where formData=formData, OF present ext lookup
                fresh ins] present ext fresh
            by simp
        qed
      qed
    qed
  qed
  qed
qed

lemma uploadFile_keeps_accepted_names:
  "accepted_names w \<Longrightarrow> accepted_names (snd (uploadFile env formData w))"
  using uploadFile_Documents[of env formData w]
  by (auto simp add: accepted_names_def created_row_def)

lemma uploadFile_keeps_names_distinct:
  assumes "distinct (map doc_name (Documents w))"
  shows "distinct (map doc_name (Documents (snd (uploadFile env formData w))))"
proof -
  from uploadFile_Documents[of env formData w] show ?thesis
  proof
    assume "Documents (snd (uploadFile env formData w)) = Documents w"
    with assms show ?thesis by simp
  next
    assume "\<exists>f. formData ''file'' = Some (FileEntry f)
         \<and> fileExtension (file_name f) \<in> set [''.txt'', ''.pdf'', ''.docx'']
         \<and> filter (\<lambda>d. doc_name d = file_name f) (Documents w) = []
         \<and> Documents (snd (uploadFile env formData w)) = Documents w @ [created_row env f]"
    then obtain f where
      fresh: "filter (\<lambda>d. doc_name d = file_name f) (Documents w) = []"
      and docs: "Documents (snd (uploadFile env formData w)) = Documents w @ [created_row env f]"
      by blast
    from fresh have "file_name f \<notin> doc_name ` set (Documents w)"
      by (auto simp add: filter_empty_conv)
    with assms docs show ?thesis
      by (simp add: created_row_def)
  qed
qed

section \<open>Ordering of the document listing\<close>

lemma sorted_wrt_orderBy_desc:
  "sorted_wrt (\<lambda>a b. key b \<le> key a) (orderBy_desc key rows)"
proof -
  have "sorted (map key (sort_key key rows))" by simp
  then have "sorted_wrt (\<lambda>a b. key a \<le> key b) (sort_key key rows)"
    by (simp add: sorted_map)
  then show ?thesis
    by (simp add: orderBy_desc_def sorted_wrt_rev)
qed

lemma mset_orderBy_desc: "mset (orderBy_desc key rows) = mset rows"
  by (simp add: orderBy_desc_def)

section \<open>Settings updates\<close>

lemma updateSettings_success:
  "fst (updateSettings env formData w) = Inr () \<Longrightarrow>
   Settings (snd (updateSettings env formData w)) = [submitted_settings formData]"
  by (auto simp add: settings_defs submitted_settings_def act_defs Let_def
        split: option.splits if_splits)

lemma updateSettings_at_most_one:
  "length (Settings w) \<le> 1 \<Longrightarrow>
   length (Settings (snd (updateSettings env formData w))) \<le> 1"
  by (auto simp add: settings_defs act_defs Let_def split: option.splits)

lemma updateSettings_seq_at_most_one:
  "length (Settings w) \<le> 1 \<Longrightarrow>
   length (Settings (snd (updateSettings_seq calls w))) \<le> 1"
proof (induction calls arbitrary: w)
  case Nil
  then show ?case by simp
next
  case (Cons c calls)
  obtain env formData where c: "c = (env, formData)" by (cases c)
  have "length (Settings (snd (updateSettings env formData w))) \<le> 1"
    using Cons.prems by (rule updateSettings_at_most_one)
  from Cons.IH[OF this] show ?case
    by (auto simp add: c split: prod.splits)
qed

lemma updateSettings_seq_last:
  "calls \<noteq> [] \<Longrightarrow> last (fst (updateSettings_seq calls w)) = Inr () \<Longrightarrow>
   Settings (snd (updateSettings_seq calls w)) = [submitted_settings (snd (last calls))]"
proof (induction calls arbitrary: w)
  case Nil
  then show ?case by simp
next
  case (Cons c calls)
  obtain env formData where c: "c = (env, formData)" by (cases c)
  obtain r w' where u: "updateSettings env formData w = (r, w')"
    by (cases "updateSettings env formData w")
  show ?case
  proof (cases "calls = []")
    case True
    with Cons.prems c u updateSettings_success[of env formData w] show ?thesis by simp
  next
    case False
    obtain rs w'' where v: "updateSettings_seq calls w' = (rs, w'')"
      by (cases "updateSettings_seq calls w'")
    have "rs \<noteq> []"
      using False v by (cases calls) (auto split: prod.splits)
    with Cons.prems c u v have "last (fst (updateSettings_seq calls w')) = Inr ()" by simp
    from Cons.IH[OF False this] False c u v show ?thesis by simp
  qed
qed

section \<open>What each action throws\<close>

lemma getAllPrompts_failure:
  "fst (getAllPrompts env w) = Inl e \<Longrightarrow> e = Error ''Error fetching prompts''"
  by (auto simp add: getAllPrompts_def act_defs split: option.splits)

lemma addNewPrompt_failure:
  "fst (addNewPrompt env formData w) = Inl e \<Longrightarrow>
   e = Error ''Invalid form data'' \<or> e = Error ''Error adding new prompt''"
  by (auto simp add: addNewPrompt_def db_insert_Prompts_def act_defs Let_def
        split: option.splits if_splits)

lemma deletePrompt_failure:
  "fst (deletePrompt env i w) = Inl e \<Longrightarrow> e = Error ''Error deleting prompt''"
  by (auto simp add: deletePrompt_def db_delete_Prompts_where_id_def act_defs
        split: option.splits)

lemma getAllSettings_failure:
  "fst (getAllSettings env w) = Inl e \<Longrightarrow> e = Error ''Error fetching settings''"
  by (auto simp add: getAllSettings_def act_defs split: option.splits)

lemma updateSettings_failure:
  "fst (updateSettings env formData w) = Inl e \<Longrightarrow> e = Error ''Error updating settings''"
  by (auto simp add: settings_defs act_defs Let_def split: option.splits if_splits)

lemma getAllDocuments_failure:
  "fst (getAllDocuments env w) = Inl e \<Longrightarrow> e = Error ''Error fetching documents''"
  by (auto simp add: getAllDocuments_def db_select_Documents_orderBy_desc_createdAt_def
        act_defs split: option.splits)

lemma getAllPrompts_fst:
  "fst (getAllPrompts env w) =
     (if fault env DbSelectPrompts = None then Inr (Prompts w)
      else Inl (Error ''Error fetching prompts''))"
  by (auto simp add: getAllPrompts_def act_defs split: option.splits)

lemma addNewPrompt_fst:
  "fst (addNewPrompt env form w) =
     (if form ''prompt'' = None \<or> form ''prompt'' = Some [] \<or> form ''title'' = None
         \<or> form ''title'' = Some []
      then Inl (Error ''Invalid form data'')
      else if fault env DbInsertPrompts = None \<and> fault env (RevalidatePath ''/prompts'') = None
           then Inr ()
           else Inl (Error ''Error adding new prompt''))"
  by (auto simp add: addNewPrompt_def db_insert_Prompts_def act_defs Let_def
        split: option.splits)

lemma deletePrompt_fst:
  "fst (deletePrompt env i w) =
     (if fault env DbDeletePrompts = None \<and> fault env (RevalidatePath ''/prompts'') = None
      then Inr ()
      else Inl (Error ''Error deleting prompt''))"
  by (auto simp add: deletePrompt_def db_delete_Prompts_where_id_def act_defs
        split: option.splits)

lemma getAllSettings_fst:
  "fst (getAllSettings env w) =
     (if fault env DbSelectSettings = None
      then Inr (case Settings w of [] \<Rightarrow> None | result # _ \<Rightarrow> Some result)
      else Inl (Error ''Error fetching settings''))"
  by (auto simp add: getAllSettings_def act_defs split: option.splits list.splits)

lemma updateSettings_fst:
  "fst (updateSettings env form w) =
     (if fault env DbSelectSettings = None
         \<and> (Settings w = [] \<or> fault env DbDeleteSettings = None)
         \<and> fault env DbInsertSettings = None
         \<and> fault env (RevalidatePath ''/settings'') = None
      then Inr ()
      else Inl (Error ''Error updating settings''))"
  by (auto simp add: settings_defs act_defs Let_def split: option.splits)

lemma getAllDocuments_fst:
  "fst (getAllDocuments env w) =
     (if fault env DbSelectDocumentsOrdered = None
      then Inr (orderBy_desc createdAt (Documents w))
      else Inl (Error ''Error fetching documents''))"
  by (auto simp add: getAllDocuments_def db_select_Documents_orderBy_desc_createdAt_def
        act_defs split: option.splits)

lemma sample_files:
  "file_form f ''file'' = Some (FileEntry f)"
  "fileExtension (file_name notes_txt) = ''.txt''"
  "fileExtension (file_name report_exe) = ''.exe''"
  "fileExtension (file_name REPORT_TXT) = ''.TXT''"
  by (simp_all add: file_form_def notes_txt_def report_exe_def REPORT_TXT_def
        fileExtension_samples)

lemma throwing_fault:
  "fault (throwing c e) c' = (if c' = c then Some e else None)"
  "fault quiet_env c' = None"
  "SAVE_RAW_DOCUMENT_LOCAL (throwing c e) = True"
  "new_id (throwing c e) = 1" "now (throwing c e) = 10"
  by (simp_all add: throwing_def quiet_env_def)

section \<open>Properties of the upload\<close>

text \<open>
  C1. An upload whose file name is the name of a stored document fails without any
  work: the only outgoing call is the name lookup, so nothing is extracted, chunked,
  embedded or written, no document row is inserted, and the stored rows and chunks are
  as before. When the lookup answers, the error is the duplicate-document error. The
  stored names are those \<^verbatim>\<open>uploadFile\<close> accepted, which it maintains
  (\<open>uploadFile_keeps_accepted_names\<close>).
\<close>

theorem uploadFile_duplicate_rejected:
  assumes "formData ''file'' = Some (FileEntry f)"
    and "accepted_names w"
    and "\<exists>d \<in> set (Documents w). doc_name d = file_name f"
  shows "snd (uploadFile env formData w) = w\<lparr>trace := trace w @ [DbSelectDocuments]\<rparr>
       \<and> (\<exists>e. fst (uploadFile env formData w) = Inl e)
       \<and> (fault env DbSelectDocuments = None \<longrightarrow>
            fst (uploadFile env formData w) = Inl (Error ''This document already exists''))"
proof -
  from assms(2,3) have ext: "fileExtension (file_name f) \<in> set [''.txt'', ''.pdf'', ''.docx'']"
    by (auto simp add: accepted_names_def)
  from assms(3) have dup: "filter (\<lambda>d. doc_name d = file_name f) (Documents w) \<noteq> []"
    by (auto simp add: filter_empty_conv)
  show ?thesis
  proof (cases "fault env DbSelectDocuments")
    case None
    from uploadFile_duplicate[where formData=formData, OF assms(1) ext None dup]
    show ?thesis using None by simp
  next
    case (Some e)
    from uploadFile_lookup_throws[where formData=formData and w=w, OF assms(1) ext Some]
    show ?thesis using Some by simp
  qed
qed

theorem uploadFile_duplicate_rejected_witness:
  "accepted_names world_with_notes
   \<and> (\<exists>d \<in> set (Documents world_with_notes). doc_name d = file_name notes_txt)
   \<and> fst (uploadFile quiet_env (file_form notes_txt) world_with_notes)
       = Inl (Error ''This document already exists'')
   \<and> snd (uploadFile quiet_env (file_form notes_txt) world_with_notes)
       = world_with_notes\<lparr>trace := [DbSelectDocuments]\<rparr>"
proof -
  have a: "accepted_names world_with_notes"
    by (simp add: accepted_names_def world_with_notes_def empty_world_def
          fileExtension_samples)
  have b: "\<exists>d \<in> set (Documents world_with_notes). doc_name d = file_name notes_txt"
    by (simp add: world_with_notes_def empty_world_def notes_txt_def)
  have c: "trace world_with_notes = []"
    by (simp add: world_with_notes_def empty_world_def)
  from uploadFile_duplicate_rejected[where formData="file_form notes_txt" and env=quiet_env,
      OF sample_files(1) a b]
  show ?thesis using a b c by (simp add: throwing_fault)
qed

text \<open>
  C2. A file named \<^verbatim>\<open>pdf\<close> has no extension, so its extension is none of
  \<^verbatim>\<open>.txt\<close>, \<^verbatim>\<open>.pdf\<close>, \<^verbatim>\<open>.docx\<close>; yet its upload is not rejected: it
  completes and stores a document row with the extension \<^verbatim>\<open>.pdf\<close>.
\<close>

theorem uploadFile_accepts_name_without_extension:
  "file_name pdf_file = ''pdf''
   \<and> CHR ''.'' \<notin> set (file_name pdf_file)
   \<and> fst (uploadFile quiet_env (file_form pdf_file) empty_world) = Inr ()
   \<and> Documents (snd (uploadFile quiet_env (file_form pdf_file) empty_world))
       = [\<lparr>doc_id = 1, doc_name = ''pdf'', doc_size = 4, doc_extension = ''.pdf'',
           createdAt = 10\<rparr>]"
proof -
  have ext0: "fileExtension ''pdf'' = ''.pdf''"
    using fileExtension_no_dot[of "''pdf''"] by simp
  then have ext: "fileExtension (file_name pdf_file) = ''.pdf''"
    by (simp add: pdf_file_def)
  have a: "fileExtension (file_name pdf_file) \<in> set [''.txt'', ''.pdf'', ''.docx'']"
    by (simp add: ext)
  have b: "filter (\<lambda>d. doc_name d = file_name pdf_file) (Documents empty_world) = []"
    by (simp add: empty_world_def)
  note ai = uploadFile_after_insert[where formData="file_form pdf_file" and f=pdf_file
      and env=quiet_env and w=empty_world, OF sample_files(1) a throwing_fault(2) b
      throwing_fault(2)]
  have c: "\<not> local_write_fails quiet_env"
    "\<not> embedding_branch_fails quiet_env (fileExtension (file_name pdf_file))"
    by (simp_all add: local_write_fails_def embedding_branch_fails_def throwing_fault
          split: option.splits)
  from ai(2) c have "fst (uploadFile quiet_env (file_form pdf_file) empty_world) = Inr ()"
    by (simp add: throwing_fault)
  moreover from ai(1)
  have "Documents (snd (uploadFile quiet_env (file_form pdf_file) empty_world))
       = [\<lparr>doc_id = 1, doc_name = ''pdf'', doc_size = 4, doc_extension = ''.pdf'',
           createdAt = 10\<rparr>]"
    by (simp add: created_row_def ext0 empty_world_def quiet_env_def pdf_file_def)
  ultimately show ?thesis
    by (simp add: pdf_file_def)
qed

text \<open>
  C2, as the code has it. What \<^verbatim>\<open>uploadFile\<close> checks is a dot followed by the
  part of the file name after its last dot, or by the whole name when it has no dot.
  When that is none of \<^verbatim>\<open>.txt\<close>, \<^verbatim>\<open>.pdf\<close>, \<^verbatim>\<open>.docx\<close> the upload fails
  with the invalid-file-type error and leaves the world exactly as it was: no outgoing
  call, no document row, no disk write, no chunk. So every name with another suffix
  after its last dot is rejected, and every name without a dot other than
  \<^verbatim>\<open>txt\<close>, \<^verbatim>\<open>pdf\<close>, \<^verbatim>\<open>docx\<close>; a file named just so, without an extension,
  passes the check and its row is inserted.
\<close>

theorem uploadFile_rejects_unknown_extension:
  assumes "formData ''file'' = Some (FileEntry f)"
  shows "(fileExtension (file_name f) \<notin> set [''.txt'', ''.pdf'', ''.docx''] \<longrightarrow>
            uploadFile env formData w = (Inl (Error ''Invalid file type''), w))
       \<and> (file_name f = base @ ''.'' @ e \<and> CHR ''.'' \<notin> set e
            \<and> e \<notin> set [''txt'', ''pdf'', ''docx''] \<longrightarrow>
            uploadFile env formData w = (Inl (Error ''Invalid file type''), w))
       \<and> (CHR ''.'' \<notin> set (file_name f)
            \<and> file_name f \<notin> set [''txt'', ''pdf'', ''docx''] \<longrightarrow>
            uploadFile env formData w = (Inl (Error ''Invalid file type''), w))
       \<and> (CHR ''.'' \<notin> set (file_name f)
            \<and> file_name f \<in> set [''txt'', ''pdf'', ''docx'']
            \<and> fault env DbSelectDocuments = None
            \<and> (\<forall>d \<in> set (Documents w). doc_name d \<noteq> file_name f)
            \<and> fault env DbInsertDocuments = None \<longrightarrow>
            Documents (snd (uploadFile env formData w)) = Documents w @ [created_row env f])"
proof (intro conjI impI)
  assume "fileExtension (file_name f) \<notin> set [''.txt'', ''.pdf'', ''.docx'']"
  with assms show "uploadFile env formData w = (Inl (Error ''Invalid file type''), w)"
    by (rule uploadFile_invalid_type)
next
  assume h: "file_name f = base @ ''.'' @ e \<and> CHR ''.'' \<notin> set e
            \<and> e \<notin> set [''txt'', ''pdf'', ''docx'']"
  then have "fileExtension (file_name f) = ''.'' @ e"
    using fileExtension_dotted[of e base] by simp
  with h have "fileExtension (file_name f) \<notin> set [''.txt'', ''.pdf'', ''.docx'']"
    by simp
  with assms show "uploadFile env formData w = (Inl (Error ''Invalid file type''), w)"
    by (rule uploadFile_invalid_type)
next
  assume h: "CHR ''.'' \<notin> set (file_name f)
            \<and> file_name f \<notin> set [''txt'', ''pdf'', ''docx'']"
  then have "fileExtension (file_name f) = ''.'' @ file_name f"
    using fileExtension_no_dot[of "file_name f"] by simp
  with h have "fileExtension (file_name f) \<notin> set [''.txt'', ''.pdf'', ''.docx'']"
    by simp
  with assms show "uploadFile env formData w = (Inl (Error ''Invalid file type''), w)"
    by (rule uploadFile_invalid_type)
next
  assume h: "CHR ''.'' \<notin> set (file_name f)
            \<and> file_name f \<in> set [''txt'', ''pdf'', ''docx'']
            \<and> fault env DbSelectDocuments = None
            \<and> (\<forall>d \<in> set (Documents w). doc_name d \<noteq> file_name f)
            \<and> fault env DbInsertDocuments = None"
  then have "fileExtension (file_name f) = ''.'' @ file_name f"
    using fileExtension_no_dot[of "file_name f"] by simp
  with h have ext: "fileExtension (file_name f) \<in> set [''.txt'', ''.pdf'', ''.docx'']"
    by auto
  from h have fresh: "filter (\<lambda>d. doc_name d = file_name f) (Documents w) = []"
    by (auto simp add: filter_empty_conv)
  from h have ok: "fault env DbSelectDocuments = None" "fault env DbInsertDocuments = None"
    by simp_all
  show "Documents (snd (uploadFile env formData w)) = Documents w @ [created_row env f]"
    by (rule uploadFile_after_insert(1)[where formData=formData, OF assms ext ok(1) fresh
          ok(2)])
qed

theorem uploadFile_rejects_unknown_extension_witness:
  "file_form report_exe ''file'' = Some (FileEntry report_exe)
   \<and> file_name report_exe = ''report'' @ ''.'' @ ''exe''
   \<and> uploadFile quiet_env (file_form report_exe) world_with_notes
       = (Inl (Error ''Invalid file type''), world_with_notes)"
  using uploadFile_rejects_unknown_extension[where formData="file_form report_exe"
      and f=report_exe and env=quiet_env and w=world_with_notes and base="''report''"
      and e="''exe''", OF sample_files(1)]
  by (simp add: sample_files report_exe_def)

text \<open>
  C3. Once the document row is inserted, any failing later step makes
  \<^verbatim>\<open>uploadFile\<close> throw, and the inserted row stays: the documents are the old ones
  followed by the new row, and no chunk was added, so the new row has none. A failing
  local write surfaces as the local-write error; a failure of extraction, chunking,
  embedding or the bulk insert surfaces as the embedding error.
\<close>

theorem uploadFile_later_failure_keeps_row:
  assumes "formData ''file'' = Some (FileEntry f)"
    and "fileExtension (file_name f) \<in> set [''.txt'', ''.pdf'', ''.docx'']"
    and "fault env DbSelectDocuments = None"
    and "\<forall>d \<in> set (Documents w). doc_name d \<noteq> file_name f"
    and "fault env DbInsertDocuments = None"
    and "later_step_fails env (fileExtension (file_name f))"
  shows "\<exists>e. fst (uploadFile env formData w) = Inl e
     \<and> (fault env FileArrayBuffer = None \<and> local_write_fails env \<longrightarrow>
          e = Error ''Error writing file locally'')
     \<and> (fault env FileArrayBuffer = None \<and> \<not> local_write_fails env \<longrightarrow>
          e = Error ''Error embedding document'')
     \<and> Documents (snd (uploadFile env formData w)) = Documents w @ [created_row env f]
     \<and> Embeddings (snd (uploadFile env formData w)) = Embeddings w
     \<and> ((\<forall>r \<in> set (Embeddings w). documentId r \<noteq> new_id env) \<longrightarrow>
          (\<forall>r \<in> set (Embeddings (snd (uploadFile env formData w))).
             documentId r \<noteq> doc_id (created_row env f)))"
proof -
  from assms(4) have fresh: "filter (\<lambda>d. doc_name d = file_name f) (Documents w) = []"
    by (auto simp add: filter_empty_conv)
  note ai = uploadFile_after_insert[where formData=formData, OF assms(1,2,3) fresh assms(5)]
  from ai(2) assms(6) have failed: "fst (uploadFile env formData w) \<noteq> Inr ()"
    by (auto simp add: later_step_fails_def split: option.splits)
  from ai(3)[OF failed]
  have emb: "Embeddings (snd (uploadFile env formData w)) = Embeddings w" .
  from ai(2) assms(6) show ?thesis
    by (auto simp add: ai(1) emb later_step_fails_def created_row_def split: option.splits)
qed

theorem uploadFile_later_failure_keeps_row_witness:
  "later_step_fails (throwing GenerateEmbedding (Error ''model offline''))
     (fileExtension (file_name notes_txt))
   \<and> fst (uploadFile (throwing GenerateEmbedding (Error ''model offline''))
           (file_form notes_txt) empty_world) = Inl (Error ''Error embedding document'')
   \<and> Documents (snd (uploadFile (throwing GenerateEmbedding (Error ''model offline''))
           (file_form notes_txt) empty_world))
       = [created_row (throwing GenerateEmbedding (Error ''model offline'')) notes_txt]
   \<and> Embeddings (snd (uploadFile (throwing GenerateEmbedding (Error ''model offline''))
           (file_form notes_txt) empty_world)) = []"
proof -
  let ?env = "throwing GenerateEmbedding (Error ''model offline'')"
  have a: "later_step_fails ?env (fileExtension (file_name notes_txt))"
    by (simp add: later_step_fails_def embedding_branch_fails_def throwing_fault)
  have b: "\<not> local_write_fails ?env"
    by (simp add: local_write_fails_def throwing_fault)
  have c: "fileExtension (file_name notes_txt) \<in> set [''.txt'', ''.pdf'', ''.docx'']"
    by (simp add: sample_files)
  have d: "\<forall>d \<in> set (Documents empty_world). doc_name d \<noteq> file_name notes_txt"
    by (simp add: empty_world_def)
  have e: "fault ?env DbSelectDocuments = None" "fault ?env DbInsertDocuments = None"
    "fault ?env FileArrayBuffer = None"
    by (simp_all add: throwing_fault)
  have g: "Documents empty_world = []" "Embeddings empty_world = []"
    by (simp_all add: empty_world_def)
  from uploadFile_later_failure_keeps_row[where formData="file_form notes_txt" and env="?env"
      and w=empty_world, OF sample_files(1) c e(1) d e(2) a]
  show ?thesis using a b e(3) g by auto
qed

text \<open>
  C4. The dispatch key is not lower-cased: for \<^verbatim>\<open>REPORT.TXT\<close> it is
  \<^verbatim>\<open>.TXT\<close>, and the upload is rejected as an invalid file type.
\<close>

theorem dispatch_key_not_lowercased:
  "fileExtension (file_name REPORT_TXT) = ''.TXT''
   \<and> \<not> lowercase (fileExtension (file_name REPORT_TXT))
   \<and> uploadFile quiet_env (file_form REPORT_TXT) empty_world
       = (Inl (Error ''Invalid file type''), empty_world)"
proof -
  have "uploadFile quiet_env (file_form REPORT_TXT) empty_world
          = (Inl (Error ''Invalid file type''), empty_world)"
    by (rule uploadFile_invalid_type[where f=REPORT_TXT]) (simp_all add: sample_files)
  then show ?thesis
    by (simp add: sample_files lowercase_def)
qed

text \<open>
  C4, as the code has it. The dispatch key is a dot followed by the part of the file
  name after its last dot, with its case unchanged (the whole name when it has no
  dot). A key other than \<^verbatim>\<open>.txt\<close>, \<^verbatim>\<open>.pdf\<close>, \<^verbatim>\<open>.docx\<close> is rejected, so
  every key that is dispatched on is lower-case and starts with the dot; an accepted
  upload stores that key as the document's extension.
\<close>

theorem dispatch_key:
  "(CHR ''.'' \<notin> set e \<longrightarrow> fileExtension (base @ ''.'' @ e) = ''.'' @ e)
   \<and> (CHR ''.'' \<notin> set n \<longrightarrow> fileExtension n = ''.'' @ n)
   \<and> (formData ''file'' = Some (FileEntry f)
        \<and> fileExtension (file_name f) \<notin> set [''.txt'', ''.pdf'', ''.docx''] \<longrightarrow>
        uploadFile env formData w = (Inl (Error ''Invalid file type''), w))
   \<and> (fileExtension n \<in> set [''.txt'', ''.pdf'', ''.docx''] \<longrightarrow>
        lowercase (fileExtension n) \<and> hd (fileExtension n) = CHR ''.'')
   \<and> (Documents (snd (uploadFile env formData w)) \<noteq> Documents w \<longrightarrow>
        (\<exists>f. formData ''file'' = Some (FileEntry f)
           \<and> Documents (snd (uploadFile env formData w)) = Documents w @ [created_row env f]
           \<and> doc_extension (created_row env f) = fileExtension (file_name f)
           \<and> doc_extension (created_row env f) \<in> set [''.txt'', ''.pdf'', ''.docx'']))"
proof (intro conjI impI)
  assume "CHR ''.'' \<notin> set e"
  then show "fileExtension (base @ ''.'' @ e) = ''.'' @ e" by (rule fileExtension_dotted)
next
  assume "CHR ''.'' \<notin> set n"
  then show "fileExtension n = ''.'' @ n" by (rule fileExtension_no_dot)
next
  assume "formData ''file'' = Some (FileEntry f)
        \<and> fileExtension (file_name f) \<notin> set [''.txt'', ''.pdf'', ''.docx'']"
  then show "uploadFile env formData w = (Inl (Error ''Invalid file type''), w)"
    using uploadFile_invalid_type[where formData=formData and f=f] by blast
next
  assume "fileExtension n \<in> set [''.txt'', ''.pdf'', ''.docx'']"
  then show "lowercase (fileExtension n)" by (auto simp add: lowercase_def)
next
  assume "fileExtension n \<in> set [''.txt'', ''.pdf'', ''.docx'']"
  then show "hd (fileExtension n) = CHR ''.''" by auto
next
  assume "Documents (snd (uploadFile env formData w)) \<noteq> Documents w"
  with uploadFile_Documents[of env formData w]
  show "\<exists>f. formData ''file'' = Some (FileEntry f)
           \<and> Documents (snd (uploadFile env formData w)) = Documents w @ [created_row env f]
           \<and> doc_extension (created_row env f) = fileExtension (file_name f)
           \<and> doc_extension (created_row env f) \<in> set [''.txt'', ''.pdf'', ''.docx'']"
    by (auto simp add: created_row_def)
qed

theorem dispatch_key_witness:
  "fileExtension (''archive.tar'' @ ''.'' @ ''GZ'') = ''.GZ''
   \<and> fileExtension ''pdf'' = ''.pdf''
   \<and> uploadFile quiet_env (file_form report_exe) empty_world
       = (Inl (Error ''Invalid file type''), empty_world)
   \<and> lowercase (fileExtension ''pdf'')"
  using dispatch_key[where e="''GZ''" and base="''archive.tar''" and n="''pdf''"
      and formData="file_form report_exe" and f=report_exe and env=quiet_env
      and w=empty_world]
  by (simp add: sample_files)

text \<open>
  C5. The five messages \<^verbatim>\<open>uploadFile\<close> throws itself are not its only failures: a
  lookup that throws an error surfaces with that error's own message, and one that
  throws something that is not an \<^verbatim>\<open>Error\<close> surfaces as the upload error.
\<close>

theorem uploadFile_other_failures:
  "fst (uploadFile (throwing DbSelectDocuments (Error ''connection refused''))
          (file_form notes_txt) empty_world) = Inl (Error ''connection refused'')
   \<and> ''connection refused'' \<notin> set upload_failure_messages
   \<and> fst (uploadFile (throwing DbSelectDocuments NonError)
          (file_form notes_txt) empty_world) = Inl (Error ''Error uploading file'')
   \<and> ''Error uploading file'' \<notin> set upload_failure_messages"
proof -
  have "uploadFile (throwing DbSelectDocuments e) (file_form notes_txt) empty_world
          = (Inl (rethrown e), empty_world\<lparr>trace := trace empty_world @ [DbSelectDocuments]\<rparr>)"
    for e
    by (rule uploadFile_lookup_throws[where f=notes_txt])
      (simp_all add: sample_files throwing_fault)
  then show ?thesis
    by (simp add: rethrown_def upload_failure_messages_def)
qed

text \<open>
  C5, as the code has it. Every call of \<^verbatim>\<open>uploadFile\<close> either completes, having
  inserted the document row of its file, or throws an \<^verbatim>\<open>Error\<close> whose message is
  one of its own five (missing file, invalid type, duplicate, local write, embedding),
  or the upload error, or the message of the \<^verbatim>\<open>TypeError\<close> thrown when the
  \<^verbatim>\<open>file\<close> entry is a non-empty string, or the message of the error thrown by the
  name lookup, by the insert of the row or by reading the file's bytes.
\<close>

theorem uploadFile_outcomes:
  "(fst (uploadFile env formData w) = Inr ()
      \<and> (\<exists>f. formData ''file'' = Some (FileEntry f)
            \<and> Documents (snd (uploadFile env formData w)) = Documents w @ [created_row env f]))
   \<or> (\<exists>m. fst (uploadFile env formData w) = Inl (Error m)
         \<and> (m \<in> set upload_failure_messages \<or> m = ''Error uploading file''
            \<or> m = split_of_undefined
            \<or> fault env DbSelectDocuments = Some (Error m)
            \<or> fault env DbInsertDocuments = Some (Error m)
            \<or> fault env FileArrayBuffer = Some (Error m)))"
proof (cases "fst (uploadFile env formData w)")
  case (Inl e)
  from uploadFile_failure_message[OF Inl] obtain m where
    "e = Error m"
    "m \<in> set upload_failure_messages \<or> m = ''Error uploading file''
       \<or> m = split_of_undefined
       \<or> fault env DbSelectDocuments = Some (Error m)
       \<or> fault env DbInsertDocuments = Some (Error m)
       \<or> fault env FileArrayBuffer = Some (Error m)"
    by blast
  with Inl show ?thesis by blast
next
  case (Inr u)
  from uploadFile_success_created[OF Inr] obtain f where
    "formData ''file'' = Some (FileEntry f)"
    "Documents (snd (uploadFile env formData w)) = Documents w @ [created_row env f]"
    by blast
  with Inr show ?thesis by simp
qed

theorem uploadFile_outcomes_witness:
  "fst (uploadFile quiet_env (file_form notes_txt) empty_world) = Inr ()
   \<and> Documents (snd (uploadFile quiet_env (file_form notes_txt) empty_world))
       = [created_row quiet_env notes_txt]"
  using uploadFile_outcomes[of quiet_env "file_form notes_txt" empty_world]
    uploadFile_after_insert(2)[where formData="file_form notes_txt" and f=notes_txt
      and env=quiet_env and w=empty_world]
  by (auto simp add: sample_files throwing_fault empty_world_def local_write_fails_def
        embedding_branch_fails_def extract_call_def)

section \<open>Properties of prompts, settings and the document listing\<close>

text \<open>
  C6. For every form \<^verbatim>\<open>addNewPrompt\<close> accepts (both fields present and not
  empty), the row it stores holds the first 150 characters of the title and the first
  1000 characters of the prompt, so at most 150 and 1000 characters; it stores that
  row unless the insert throws, in which case nothing is stored.
\<close>

theorem addNewPrompt_truncates:
  assumes "formData ''title'' = Some t" and "formData ''prompt'' = Some p"
    and "t \<noteq> []" and "p \<noteq> []"
  shows "(fault env DbInsertPrompts = None \<longrightarrow>
            (\<exists>row. Prompts (snd (addNewPrompt env formData w)) = Prompts w @ [row]
               \<and> title row = take 150 t \<and> content row = take 1000 p
               \<and> length (title row) \<le> 150 \<and> length (content row) \<le> 1000))
       \<and> (fault env DbInsertPrompts \<noteq> None \<longrightarrow>
            Prompts (snd (addNewPrompt env formData w)) = Prompts w
            \<and> fst (addNewPrompt env formData w) = Inl (Error ''Error adding new prompt''))"
  using assms
  by (auto simp add: addNewPrompt_def db_insert_Prompts_def slice0_def act_defs
       split: option.splits)

theorem addNewPrompt_truncates_witness:
  "\<exists>row. Prompts (snd (addNewPrompt quiet_env prompt_form empty_world)) = [row]
     \<and> title row = ''Greeting'' \<and> content row = ''Say hello''"
  using addNewPrompt_truncates[where formData=prompt_form and t="''Greeting''"
      and p="''Say hello''" and env=quiet_env and w=empty_world]
  by (auto simp add: prompt_form_def throwing_fault empty_world_def)

text \<open>
  C7. Starting with at most one settings row, any sequence of \<^verbatim>\<open>updateSettings\<close>
  calls leaves at most one row; a successful call replaces whatever was stored by the
  single submitted row, so after a sequence whose last call succeeded exactly one
  row exists, the one submitted last.
\<close>

theorem updateSettings_single_row:
  assumes "length (Settings w) \<le> 1"
  shows "length (Settings (snd (updateSettings_seq calls w))) \<le> 1
       \<and> (calls \<noteq> [] \<and> last (fst (updateSettings_seq calls w)) = Inr () \<longrightarrow>
            Settings (snd (updateSettings_seq calls w)) = [submitted_settings (snd (last calls))])
       \<and> (fst (updateSettings env formData w) = Inr () \<longrightarrow>
            Settings (snd (updateSettings env formData w)) = [submitted_settings formData])"
  using assms updateSettings_seq_at_most_one[of w calls] updateSettings_seq_last[of calls w]
    updateSettings_success[of env formData w]
  by blast

theorem updateSettings_single_row_witness:
  "length (Settings empty_world) \<le> 1
   \<and> fst (updateSettings_seq [(quiet_env, settings_form ''ann''), (quiet_env, settings_form ''bob'')]
           empty_world) = [Inr (), Inr ()]
   \<and> Settings (snd (updateSettings_seq
           [(quiet_env, settings_form ''ann''), (quiet_env, settings_form ''bob'')] empty_world))
       = [\<lparr>username = Some ''bob'', system = Some ''Be brief''\<rparr>]"
proof -
  let ?calls = "[(quiet_env, settings_form ''ann''), (quiet_env, settings_form ''bob'')]"
  have a: "length (Settings empty_world) \<le> 1" by (simp add: empty_world_def)
  have b: "fst (updateSettings_seq ?calls empty_world) = [Inr (), Inr ()]"
    by (simp add: settings_defs act_defs Let_def throwing_fault empty_world_def
          split: prod.splits)
  from updateSettings_single_row[OF a, of ?calls] b
  have "Settings (snd (updateSettings_seq ?calls empty_world))
          = [submitted_settings (settings_form ''bob'')]"
    by simp
  with a b show ?thesis
    by (simp add: submitted_settings_def settings_form_def slice0_def)
qed

text \<open>
  C8. \<^verbatim>\<open>uploadFile\<close> does not collapse its failures into one error: a failing name
  lookup surfaces with the message of the error the store threw, a failing embedding
  with the embedding message.
\<close>

theorem uploadFile_failures_not_collapsed:
  "fst (uploadFile (throwing DbSelectDocuments (Error ''too many clients''))
          (file_form notes_txt) empty_world) = Inl (Error ''too many clients'')
   \<and> fst (uploadFile (throwing GenerateEmbedding (Error ''model offline''))
          (file_form notes_txt) empty_world) = Inl (Error ''Error embedding document'')"
proof -
  have "uploadFile (throwing DbSelectDocuments (Error ''too many clients''))
          (file_form notes_txt) empty_world
          = (Inl (rethrown (Error ''too many clients'')),
             empty_world\<lparr>trace := trace empty_world @ [DbSelectDocuments]\<rparr>)"
    by (rule uploadFile_lookup_throws[where f=notes_txt])
      (simp_all add: sample_files throwing_fault)
  moreover have "fst (uploadFile (throwing GenerateEmbedding (Error ''model offline''))
          (file_form notes_txt) empty_world) = Inl (Error ''Error embedding document'')"
    using uploadFile_after_insert(2)[where formData="file_form notes_txt" and f=notes_txt
      and env="throwing GenerateEmbedding (Error ''model offline'')" and w=empty_world]
    by (simp add: sample_files throwing_fault empty_world_def local_write_fails_def
        embedding_branch_fails_def)
  ultimately show ?thesis by (simp add: rethrown_def)
qed

text \<open>
  C8, as the code has it. Each call of an action surfaces at most one error, always an
  \<^verbatim>\<open>Error\<close>. In six actions every outgoing call that throws is caught and
  re-thrown as the action's one fixed error, and the action completes when none throws
  (\<^verbatim>\<open>addNewPrompt\<close> has a second error for an invalid form, thrown before its
  \<^verbatim>\<open>try\<close>). \<^verbatim>\<open>uploadFile\<close> also re-throws every failure, but keeps the message
  of what it caught: one of its own messages, or the message of the error thrown by the
  lookup, the insert or the read of the bytes, or of the \<^verbatim>\<open>TypeError\<close> for a
  string entry, or the upload error when the thrown value is no \<^verbatim>\<open>Error\<close>.
\<close>

theorem action_failures:
  "fst (getAllPrompts env w) =
     (if fault env DbSelectPrompts = None then Inr (Prompts w)
      else Inl (Error ''Error fetching prompts''))
   \<and> fst (addNewPrompt env form w) =
     (if form ''prompt'' = None \<or> form ''prompt'' = Some [] \<or> form ''title'' = None
         \<or> form ''title'' = Some []
      then Inl (Error ''Invalid form data'')
      else if fault env DbInsertPrompts = None \<and> fault env (RevalidatePath ''/prompts'') = None
           then Inr ()
           else Inl (Error ''Error adding new prompt''))
   \<and> fst (deletePrompt env i w) =
     (if fault env DbDeletePrompts = None \<and> fault env (RevalidatePath ''/prompts'') = None
      then Inr ()
      else Inl (Error ''Error deleting prompt''))
   \<and> fst (getAllSettings env w) =
     (if fault env DbSelectSettings = None
      then Inr (case Settings w of [] \<Rightarrow> None | result # _ \<Rightarrow> Some result)
      else Inl (Error ''Error fetching settings''))
   \<and> fst (updateSettings env form w) =
     (if fault env DbSelectSettings = None
         \<and> (Settings w = [] \<or> fault env DbDeleteSettings = None)
         \<and> fault env DbInsertSettings = None
         \<and> fault env (RevalidatePath ''/settings'') = None
      then Inr ()
      else Inl (Error ''Error updating settings''))
   \<and> fst (getAllDocuments env w) =
     (if fault env DbSelectDocumentsOrdered = None
      then Inr (orderBy_desc createdAt (Documents w))
      else Inl (Error ''Error fetching documents''))
   \<and> fst (uploadFile env formData w) = upload_outcome env formData w
   \<and> (fst (uploadFile env formData w) = Inl e \<longrightarrow>
        (\<exists>m. e = Error m
           \<and> (m \<in> set upload_failure_messages \<or> m = ''Error uploading file''
              \<or> m = split_of_undefined
              \<or> fault env DbSelectDocuments = Some (Error m)
              \<or> fault env DbInsertDocuments = Some (Error m)
              \<or> fault env FileArrayBuffer = Some (Error m))))
   \<and> (formData ''file'' = Some (FileEntry f)
        \<and> fileExtension (file_name f) \<in> set [''.txt'', ''.pdf'', ''.docx'']
        \<and> fault env DbSelectDocuments = Some (Error m') \<longrightarrow>
        fst (uploadFile env formData w) = Inl (Error m'))"
proof -
  have up: "fst (uploadFile env formData w) = Inl e \<longrightarrow>
        (\<exists>m. e = Error m
           \<and> (m \<in> set upload_failure_messages \<or> m = ''Error uploading file''
              \<or> m = split_of_undefined
              \<or> fault env DbSelectDocuments = Some (Error m)
              \<or> fault env DbInsertDocuments = Some (Error m)
              \<or> fault env FileArrayBuffer = Some (Error m)))"
    using uploadFile_failure_message[of env formData w e] by blast
  have raw: "formData ''file'' = Some (FileEntry f)
        \<and> fileExtension (file_name f) \<in> set [''.txt'', ''.pdf'', ''.docx'']
        \<and> fault env DbSelectDocuments = Some (Error m') \<longrightarrow>
        fst (uploadFile env formData w) = Inl (Error m')"
    using uploadFile_lookup_throws[where formData=formData and f=f and env=env
        and e="Error m'" and w=w]
    by (simp add: rethrown_def)
  show ?thesis
    by (intro conjI up raw getAllPrompts_fst addNewPrompt_fst deletePrompt_fst
          getAllSettings_fst updateSettings_fst getAllDocuments_fst uploadFile_fst)
qed

theorem action_failures_witness:
  "fst (getAllPrompts (throwing DbSelectPrompts NonError) empty_world)
     = Inl (Error ''Error fetching prompts'')
   \<and> fst (updateSettings (throwing DbInsertSettings (Error ''not null violation''))
            (settings_form ''ann'') empty_world) = Inl (Error ''Error updating settings'')
   \<and> fst (uploadFile (throwing FsWriteFile (Error ''disk full''))
            (file_form notes_txt) empty_world) = Inl (Error ''Error writing file locally'')
   \<and> fst (uploadFile quiet_env (string_form ''notes.txt'') empty_world)
       = Inl (Error split_of_undefined)"
  using action_failures[where env="throwing DbSelectPrompts NonError" and w=empty_world]
    action_failures[where env="throwing DbInsertSettings (Error ''not null violation'')"
      and form="settings_form ''ann''" and w=empty_world]
    action_failures[where env="throwing FsWriteFile (Error ''disk full'')"
      and formData="file_form notes_txt" and w=empty_world]
    action_failures[where env=quiet_env and formData="string_form ''notes.txt''"
      and w=empty_world]
  by (simp add: throwing_fault upload_outcome_def sample_files string_form_def
        local_write_fails_def empty_world_def)

text \<open>
  C9. On an empty settings table \<^verbatim>\<open>getAllSettings\<close> returns \<^verbatim>\<open>undefined\<close>
  (\<open>None\<close>) and throws nothing, when the query itself does not throw; the only
  effect is the recorded query.
\<close>

theorem getAllSettings_empty_store:
  assumes "Settings w = []" and "fault env DbSelectSettings = None"
  shows "getAllSettings env w = (Inr None, w\<lparr>trace := trace w @ [DbSelectSettings]\<rparr>)"
  using assms by (simp add: getAllSettings_def act_defs)

theorem getAllSettings_empty_store_witness:
  "Settings empty_world = []
   \<and> getAllSettings quiet_env empty_world
       = (Inr None, empty_world\<lparr>trace := trace empty_world @ [DbSelectSettings]\<rparr>)"
  using getAllSettings_empty_store[of empty_world quiet_env]
  by (simp add: empty_world_def throwing_fault)

text \<open>
  C10. When its query does not throw, \<^verbatim>\<open>getAllDocuments\<close> returns the stored
  document rows, each as often as it is stored, ordered by \<^verbatim>\<open>createdAt\<close> with the
  newest first.
\<close>

theorem getAllDocuments_newest_first:
  assumes "fault env DbSelectDocumentsOrdered = None"
  shows "\<exists>docs. fst (getAllDocuments env w) = Inr docs
           \<and> mset docs = mset (Documents w)
           \<and> sorted_wrt (\<lambda>a b. createdAt b \<le> createdAt a) docs"
  using assms
  by (simp add: getAllDocuments_def db_select_Documents_orderBy_desc_createdAt_def act_defs
        sorted_wrt_orderBy_desc mset_orderBy_desc)

theorem getAllDocuments_newest_first_witness:
  "\<exists>docs. fst (getAllDocuments quiet_env world_two_documents) = Inr docs
     \<and> mset docs = mset (Documents world_two_documents)
     \<and> map doc_name docs = [''paper.pdf'', ''notes.txt'']"
proof -
  have "fst (getAllDocuments quiet_env world_two_documents)
          = Inr (rev (Documents world_two_documents))"
    by (simp add: getAllDocuments_def db_select_Documents_orderBy_desc_createdAt_def act_defs
          throwing_fault orderBy_desc_def world_two_documents_def empty_world_def)
  moreover have "map doc_name (rev (Documents world_two_documents)) = [''paper.pdf'', ''notes.txt'']"
    by (simp add: world_two_documents_def empty_world_def)
  ultimately show ?thesis
    using getAllDocuments_newest_first[of quiet_env world_two_documents]
    by (auto simp add: throwing_fault)
qed

end
